theory Spec2Isabelle
  imports Main "HOL-Library.Sublist" "HOL-Library.AList"
begin

section \<open>Strings\<close>

text \<open>
  A TypeScript string is a sequence of code units. The functions modelled here only
  compare code units with the ASCII characters named below, append and measure length,
  so a string is a \<^typ>\<open>string\<close> (a list of characters) and each character stands for one
  code unit.
\<close>

definition squote :: char where "squote = CHR 0x27"
definition dquote :: char where "dquote = CHR 0x22"
definition backslash :: char where "backslash = CHR 0x5C"
definition dollar :: char where "dollar = CHR 0x24"
definition backtick :: char where "backtick = CHR 0x60"
definition newline :: char where "newline = CHR 0x0A"

text \<open>
  \<^verbatim>\<open>str.replace(/c/g, r)\<close> for a pattern that is one literal character and a replacement
  text \<open>r\<close> without replacement patterns: every occurrence of \<open>c\<close> becomes \<open>r\<close>, scanning
  the input once from the left (the replacement text is never rescanned).
\<close>

definition replace_all :: "char \<Rightarrow> string \<Rightarrow> string \<Rightarrow> string" where
  "replace_all c r s = concat (map (\<lambda>x. if x = c then r else [x]) s)"

section \<open>Shell-argument escaper\<close>

text \<open>
  \<^verbatim>\<open>function escapeShellArg(arg) { return `'${arg.replace(/'/g, "'\\''")}'`; }\<close>
  The replacement text is the four characters quote, backslash, quote, quote.
\<close>

definition escapeShellArg :: "string \<Rightarrow> string" where
  "escapeShellArg arg =
     [squote] @ replace_all squote [squote, backslash, squote, squote] arg @ [squote]"

text \<open>
  \<^verbatim>\<open>str.replace(/\\/g, '\\\\').replace(/"/g, '\\"').replace(/\$/g, '\\$').replace(/`/g, '\\`')\<close>:
  four passes, the backslash pass first.
\<close>

definition escapeDoubleQuoted :: "string \<Rightarrow> string" where
  "escapeDoubleQuoted str =
     replace_all backtick [backslash, backtick]
       (replace_all dollar [backslash, dollar]
         (replace_all dquote [backslash, dquote]
           (replace_all backslash [backslash, backslash] str)))"

subsection \<open>How a POSIX shell reads quoted text\<close>

text \<open>
  The shell is not part of the repository. The reference reading below follows the
  quoting rules of the POSIX Shell Command Language (section 2.2): inside single quotes
  every character is literal up to the next single quote; inside double quotes the dollar
  sign and the backquote start an expansion, and a backslash is an escape only before
  dollar, backquote, double quote, backslash or newline (a backslash-newline pair is
  removed), otherwise it is literal; outside quotes a backslash makes the next character
  literal (a backslash-newline pair is removed) and the operator, expansion, pattern and
  blank characters are not literal text.

  \<open>sh_literal q w\<close> reads \<open>w\<close> starting in quoting state \<open>q\<close> and gives the literal
  string the shell obtains, or \<open>None\<close> when the text holds an unterminated quote, an
  expansion, or an unquoted character that is not plain literal text.
\<close>

datatype quoting = Unquoted | SingleQuoted | DoubleQuoted

definition sh_special :: "char \<Rightarrow> bool" where
  "sh_special c = (c \<in> set ''|&;<>()$`*?[#~=% '' \<or> c = CHR 0x09 \<or> c = newline)"

definition dq_escapable :: "char \<Rightarrow> bool" where
  "dq_escapable c = (c = dollar \<or> c = backtick \<or> c = dquote \<or> c = backslash)"

fun sh_literal :: "quoting \<Rightarrow> string \<Rightarrow> string option" where
  "sh_literal Unquoted [] = Some []"
| "sh_literal SingleQuoted [] = None"
| "sh_literal DoubleQuoted [] = None"
| "sh_literal SingleQuoted (c # cs) =
     (if c = squote then sh_literal Unquoted cs
      else map_option ((#) c) (sh_literal SingleQuoted cs))"
| "sh_literal DoubleQuoted (c # cs) =
     (if c = dquote then sh_literal Unquoted cs
      else if c = dollar \<or> c = backtick then None
      else if c = backslash then
        (case cs of
           [] \<Rightarrow> None
         | d # ds \<Rightarrow>
             if dq_escapable d then map_option ((#) d) (sh_literal DoubleQuoted ds)
             else if d = newline then sh_literal DoubleQuoted ds
             else map_option (\<lambda>r. c # d # r) (sh_literal DoubleQuoted ds))
      else map_option ((#) c) (sh_literal DoubleQuoted cs))"
| "sh_literal Unquoted (c # cs) =
     (if c = squote then sh_literal SingleQuoted cs
      else if c = dquote then sh_literal DoubleQuoted cs
      else if c = backslash then
        (case cs of
           [] \<Rightarrow> None
         | d # ds \<Rightarrow>
             if d = newline then sh_literal Unquoted ds
             else map_option ((#) d) (sh_literal Unquoted ds))
      else if sh_special c then None
      else map_option ((#) c) (sh_literal Unquoted cs))"

section \<open>Output batcher\<close>

definition DATA_BATCH_INTERVAL_MS :: nat where "DATA_BATCH_INTERVAL_MS = 10"
definition MAX_BUFFER_SIZE :: nat where "MAX_BUFFER_SIZE = 1024 * 1024"

text \<open>
  \<^verbatim>\<open>class TerminalDataBatcher\<close>: the buffer and the timer handle. \<open>timer\<close> is \<open>True\<close> while a
  timeout started by \<open>push\<close> is pending (\<^verbatim>\<open>this.timer !== null\<close>); when it fires after
  \<open>DATA_BATCH_INTERVAL_MS\<close> it calls \<open>flush\<close>. The \<open>onFlush\<close> callback is called last in
  \<open>flush\<close>, so \<open>flush\<close> and \<open>push\<close> return the updated batcher together with the data
  handed to \<open>onFlush\<close> (\<open>None\<close> when it is not called); the caller runs the callback.
\<close>

record TerminalDataBatcher =
  buffer :: string
  timer :: bool

definition new_batcher :: TerminalDataBatcher where
  "new_batcher = \<lparr>buffer = [], timer = False\<rparr>"

definition flush :: "TerminalDataBatcher \<Rightarrow> TerminalDataBatcher \<times> string option" where
  "flush b =
     (let b1 = (if timer b then b\<lparr>timer := False\<rparr> else b)
      in if length (buffer b1) > 0
         then (b1\<lparr>buffer := []\<rparr>, Some (buffer b1))
         else (b1, None))"

definition push :: "TerminalDataBatcher \<Rightarrow> string \<Rightarrow> TerminalDataBatcher \<times> string option" where
  "push b data =
     (let b1 = b\<lparr>buffer := buffer b @ data\<rparr>
      in if length (buffer b1) \<ge> MAX_BUFFER_SIZE then flush b1
         else if \<not> timer b1 then (b1\<lparr>timer := True\<rparr>, None)
         else (b1, None))"

definition destroy :: "TerminalDataBatcher \<Rightarrow> TerminalDataBatcher" where
  "destroy b = (if timer b then b\<lparr>timer := False\<rparr> else b)\<lparr>buffer := []\<rparr>"

section \<open>Running shell commands\<close>

text \<open>
  \<open>a || b\<close> on an optional string: the left operand when it is a non-empty string.
\<close>

definition truthy :: "string option \<Rightarrow> bool" where
  "truthy x = (case x of None \<Rightarrow> False | Some s \<Rightarrow> s \<noteq> [])"

definition or_else :: "string option \<Rightarrow> string \<Rightarrow> string" where
  "or_else x dflt = (case x of None \<Rightarrow> dflt | Some s \<Rightarrow> if s = [] then dflt else s)"

datatype error = Error (message: string)

text \<open>
  The promise of \<^verbatim>\<open>execAsync(fullCommand, { timeout })\<close> resolves with the standard output
  or rejects with an error: a failing command and a command killed at its timeout both
  reject.
\<close>

datatype exec_result = Stdout string | ExecError string

text \<open>
  The trace lists, in order, the calls the code makes to its collaborators and to its
  own cache: a shell command handed to \<open>execAsync\<close> or \<open>execSync\<close>, a call of
  \<open>runZellijActionAsync\<close> (session, action text), a cache invalidation (cache key), a file
  written, a PTY spawned or killed, a service event emitted.
\<close>

datatype event =
    Exec string nat
  | ExecSync string
  | ZellijAction string string
  | CacheInvalidate string
  | WriteFile string string
  | PtySpawn string "string list" nat nat string
  | PtyKill nat string
  | Emit string string string

definition ZELLIJ_COMMAND_TIMEOUT_MS :: nat where "ZELLIJ_COMMAND_TIMEOUT_MS = 5000"
definition TAB_CACHE_TTL_MS :: int where "TAB_CACHE_TTL_MS = 5000"
definition READY_TIMEOUT_MS :: nat where "READY_TIMEOUT_MS = 3000"

text \<open>
  The operating system as the code sees it: the outcome of a shell command and the
  clock, each a function of what has happened so far.
\<close>

record os =
  exec :: "event list \<Rightarrow> string \<Rightarrow> exec_result"
  date_now :: "event list \<Rightarrow> int"

definition fullCommand :: "string \<Rightarrow> string option \<Rightarrow> string" where
  "fullCommand command asUser =
     (case asUser of
        None \<Rightarrow> command
      | Some u \<Rightarrow>
          if u = [] then command
          else ''sudo -n su - '' @ u @ '' -c '' @ escapeShellArg command)"

definition runAsUserAsync ::
  "os \<Rightarrow> event list \<Rightarrow> string \<Rightarrow> string option \<Rightarrow> nat \<Rightarrow> exec_result \<times> event list"
where
  "runAsUserAsync sys tr command asUser timeout =
     (let full = fullCommand command asUser
      in (exec sys tr full, tr @ [Exec full timeout]))"

text \<open>
  \<^verbatim>\<open>output.split('\n')\<close> and \<^verbatim>\<open>line.trim()\<close>. \<open>trim\<close> removes white space at both ends;
  of the white space characters of the language, the ones a \<^typ>\<open>char\<close> can hold are
  space, tab, line feed, vertical tab, form feed, carriage return and no-break space.
\<close>

fun split_on :: "char \<Rightarrow> string \<Rightarrow> string list" where
  "split_on c [] = [[]]"
| "split_on c (x # xs) =
     (if x = c then [] # split_on c xs
      else (case split_on c xs of [] \<Rightarrow> [[x]] | r # rs \<Rightarrow> (x # r) # rs))"

definition is_space :: "char \<Rightarrow> bool" where
  "is_space c = (c \<in> set [CHR 0x20, CHR 0x09, CHR 0x0A, CHR 0x0B, CHR 0x0C, CHR 0x0D, CHR 0xA0])"

definition trim :: "string \<Rightarrow> string" where
  "trim s = rev (dropWhile is_space (rev (dropWhile is_space s)))"

definition zellijSessionExistsAsync ::
  "os \<Rightarrow> event list \<Rightarrow> string \<Rightarrow> string option \<Rightarrow> bool \<times> event list"
where
  "zellijSessionExistsAsync sys tr sessionName asUser =
     (case runAsUserAsync sys tr ''zellij list-sessions 2>/dev/null'' asUser
             ZELLIJ_COMMAND_TIMEOUT_MS of
        (Stdout output, tr1) \<Rightarrow>
          (sessionName \<in> set (map trim (split_on newline output)), tr1)
      | (ExecError m, tr1) \<Rightarrow> (False, tr1))"

text \<open>
  \<open>runZellijActionAsync\<close>: the result is the error thrown (\<open>Some\<close>) or a normal return.
\<close>

definition zellij_action_cmd :: "string \<Rightarrow> string \<Rightarrow> string" where
  "zellij_action_cmd sessionName action =
     ''zellij --session '' @ [dquote] @ sessionName @ [dquote] @ '' action '' @ action"

definition runZellijActionAsync ::
  "os \<Rightarrow> event list \<Rightarrow> string \<Rightarrow> string \<Rightarrow> string option \<Rightarrow> bool \<Rightarrow> error option \<times> event list"
where
  "runZellijActionAsync sys tr sessionName action asUser throwOnError =
     (case runAsUserAsync sys (tr @ [ZellijAction sessionName action])
             (zellij_action_cmd sessionName action) asUser ZELLIJ_COMMAND_TIMEOUT_MS of
        (Stdout output, tr1) \<Rightarrow> (None, tr1)
      | (ExecError m, tr1) \<Rightarrow> (if throwOnError then Some (Error m) else None, tr1))"

section \<open>Multiplexer query cache\<close>

text \<open>
  \<^verbatim>\<open>class ZellijSessionCache\<close>: two maps from cache key to a value and the time it was
  captured.
\<close>

record ZellijSessionCache =
  tabsCache :: "string \<rightharpoonup> (string list \<times> int)"
  existsCache :: "string \<rightharpoonup> (bool \<times> int)"

definition empty_cache :: ZellijSessionCache where
  "empty_cache = \<lparr>tabsCache = Map.empty, existsCache = Map.empty\<rparr>"

definition getCacheKey :: "string \<Rightarrow> string option \<Rightarrow> string" where
  "getCacheKey sessionName asUser = sessionName @ '':'' @ or_else asUser ''daemon''"

text \<open>
  \<^verbatim>\<open>cached && now - cached.timestamp < TAB_CACHE_TTL_MS\<close>: the cached value when the entry is
  there and younger than the TTL.
\<close>

definition cache_hit :: "('v \<times> int) option \<Rightarrow> int \<Rightarrow> 'v option" where
  "cache_hit cached now =
     (case cached of
        None \<Rightarrow> None
      | Some (v, timestamp) \<Rightarrow> if now - timestamp < TAB_CACHE_TTL_MS then Some v else None)"

definition sessionExists ::
  "os \<Rightarrow> ZellijSessionCache \<Rightarrow> event list \<Rightarrow> string \<Rightarrow> string option
    \<Rightarrow> bool \<times> ZellijSessionCache \<times> event list"
where
  "sessionExists sys cache tr sessionName asUser =
     (let cacheKey = getCacheKey sessionName asUser;
          now = date_now sys tr
      in case cache_hit (existsCache cache cacheKey) now of
           Some ex \<Rightarrow> (ex, cache, tr)
         | None \<Rightarrow>
             (let (ex, tr1) = zellijSessionExistsAsync sys tr sessionName asUser
              in (ex, cache\<lparr>existsCache := (existsCache cache)(cacheKey \<mapsto> (ex, now))\<rparr>, tr1)))"

definition fetchTabs ::
  "os \<Rightarrow> event list \<Rightarrow> string \<Rightarrow> string option \<Rightarrow> string list \<times> event list"
where
  "fetchTabs sys tr sessionName asUser =
     (case runAsUserAsync sys tr
             (''zellij --session '' @ [dquote] @ sessionName @ [dquote]
                @ '' action query-tab-names 2>/dev/null'')
             asUser ZELLIJ_COMMAND_TIMEOUT_MS of
        (Stdout output, tr1) \<Rightarrow>
          (filter (\<lambda>line. length line > 0) (map trim (split_on newline output)), tr1)
      | (ExecError m, tr1) \<Rightarrow> ([], tr1))"

definition getTabs ::
  "os \<Rightarrow> ZellijSessionCache \<Rightarrow> event list \<Rightarrow> string \<Rightarrow> string option
    \<Rightarrow> string list \<times> ZellijSessionCache \<times> event list"
where
  "getTabs sys cache tr sessionName asUser =
     (let cacheKey = getCacheKey sessionName asUser;
          now = date_now sys tr
      in case cache_hit (tabsCache cache cacheKey) now of
           Some tabs \<Rightarrow> (tabs, cache, tr)
         | None \<Rightarrow>
             (let (tabs, tr1) = fetchTabs sys tr sessionName asUser
              in (tabs, cache\<lparr>tabsCache := (tabsCache cache)(cacheKey \<mapsto> (tabs, now))\<rparr>, tr1)))"

definition invalidate ::
  "ZellijSessionCache \<Rightarrow> event list \<Rightarrow> string \<Rightarrow> string option
    \<Rightarrow> ZellijSessionCache \<times> event list"
where
  "invalidate cache tr sessionName asUser =
     (let cacheKey = getCacheKey sessionName asUser
      in (cache\<lparr>tabsCache := (tabsCache cache)(cacheKey := None),
                 existsCache := (existsCache cache)(cacheKey := None)\<rparr>,
          tr @ [CacheInvalidate cacheKey]))"

section \<open>Init commands\<close>

text \<open>
  \<open>buildInitCommands\<close> reads the home directory from \<^verbatim>\<open>os.homedir()\<close>; it is the first
  argument here.
\<close>

definition buildInitCommands :: "string \<Rightarrow> string option \<Rightarrow> string \<Rightarrow> bool \<Rightarrow> string list" where
  "buildInitCommands homedir envFile cwd alwaysCd =
     (case envFile of
        None \<Rightarrow> []
      | Some f \<Rightarrow>
          if f = [] then []
          else [''[ -f '' @ escapeShellArg f @ '' ] && source ''
                  @ escapeShellArg f @ '' 2>/dev/null || true''])
     @ (if alwaysCd \<or> cwd \<noteq> homedir then [''cd '' @ escapeShellArg cwd] else [])"

text \<open>\<^verbatim>\<open>initCommands.join(' && ')\<close>.\<close>

fun join :: "string \<Rightarrow> string list \<Rightarrow> string" where
  "join sep [] = []"
| "join sep [x] = x"
| "join sep (x # y # ys) = x @ sep @ join sep (y # ys)"

definition executeInitCommands ::
  "os \<Rightarrow> event list \<Rightarrow> string \<Rightarrow> string list \<Rightarrow> string option \<Rightarrow> error option \<times> event list"
where
  "executeInitCommands sys tr zellijSession initCommands asUser =
     (if length initCommands = 0 then (None, tr)
      else
        (let initScript = join '' && '' initCommands
         in case runZellijActionAsync sys tr zellijSession
                   (''write-chars '' @ [dquote] @ escapeDoubleQuoted initScript @ [dquote])
                   asUser False of
              (Some e, tr1) \<Rightarrow> (Some e, tr1)
            | (None, tr1) \<Rightarrow>
                runZellijActionAsync sys tr1 zellijSession ''write 10'' asUser False))"

section \<open>Terminals service: data\<close>

text \<open>
  The PTY handle belongs to the PTY library. The service calls \<open>kill\<close> on it at
  teardown; the handle is modelled by its process id and by what that call will do:
  return (\<open>None\<close>) or throw an error with the given message.
\<close>

record IPty =
  pid :: nat
  kill_throws :: "string option"

record TerminalSession =
  terminalId :: string
  pty :: IPty
  shell :: string
  cwd :: string
  userId :: "string option"
  worktreeId :: "string option"
  zellijSession :: string
  cols :: nat
  rows :: nat
  createdAt :: int
  env :: "(string \<times> string) list"
  batcher :: TerminalDataBatcher

record CreateTerminalData =
  d_cwd :: "string option"
  d_shell :: "string option"
  d_rows :: "nat option"
  d_cols :: "nat option"
  d_userId :: "string option"
  d_worktreeId :: "string option"

record create_result =
  r_terminalId :: string
  r_cwd :: string
  r_zellijSession :: string
  zellijReused :: bool
  worktreeName :: "string option"

record get_result =
  g_terminalId :: string
  g_cwd :: string
  alive :: bool

text \<open>
  The state of a \<open>TerminalsService\<close>: the table of sessions (a JavaScript \<open>Map\<close>, which
  iterates in insertion order, so an association list), its cache, and the trace.
\<close>

record world =
  trace :: "event list"
  zellijCache :: ZellijSessionCache
  sessions :: "(string \<times> TerminalSession) list"

subsection \<open>Collaborators\<close>

text \<open>
  The configuration, the repositories, the Unix-user helpers, the short-id formatter,
  the environment builders, the file system and the PTY library are imported by the
  service and are not part of it. They are the fields of \<open>host\<close>. A collaborator that
  can throw returns a sum. \<open>validateResolvedUnixUser\<close> returns, throws
  \<open>UnixUserNotFoundError\<close> (with its message) or throws another error.
\<close>

record config =
  unix_user_mode :: "string option"
  executor_unix_user :: "string option"

record user =
  unix_username :: "string option"

record worktree =
  wt_name :: string
  wt_path :: string

datatype validation = Valid | UnixUserNotFound string | OtherFailure error

record host =
  sys :: os
  homedir :: string
  tmpdir :: string
  path_join :: "string \<Rightarrow> string \<Rightarrow> string"
  new_terminal_id :: "event list \<Rightarrow> string"
  loadConfig :: "error + config"
  users_findById :: "string \<Rightarrow> error + user option"
  worktrees_findById :: "string \<Rightarrow> error + worktree option"
  formatShortId :: "string \<Rightarrow> string"
  resolveUnixUserForImpersonation ::
    "string \<Rightarrow> string option \<Rightarrow> string option \<Rightarrow> error + string option"
  validateResolvedUnixUser :: "string \<Rightarrow> string option \<Rightarrow> validation"
  existsSync :: "string \<Rightarrow> bool"
  resolveUserEnvironment :: "string \<Rightarrow> error + (string \<times> string) list"
  createUserProcessEnvironment ::
    "string option \<Rightarrow> (string \<times> string) list \<Rightarrow> error + (string \<times> string) list"
  buildSpawnArgs ::
    "string \<Rightarrow> string list \<Rightarrow> string option \<Rightarrow> (string \<times> string) list option
      \<Rightarrow> error + (string \<times> string list)"
  writeFileSync :: "string \<Rightarrow> string \<Rightarrow> error option"
  pty_spawn :: "event list \<Rightarrow> error + IPty"

section \<open>Writing the environment file\<close>

text \<open>
  \<open>writeEnvFile\<close>: the path of the script written, or \<open>None\<close> when there is no user id or
  writing throws. The file is written with mode 0600. The \<open>chown\<close> command runs inside
  its own try block, so its outcome changes nothing.
\<close>

definition skipKeys :: "string list" where
  "skipKeys = [''PATH'', ''HOME'', ''USER'', ''SHELL'', ''PWD'', ''OLDPWD'', ''TERM'', ''COLORTERM'']"

definition exportLine :: "string \<times> string \<Rightarrow> string" where
  "exportLine kv =
     ''export '' @ fst kv @ ''='' @ [squote]
       @ replace_all squote [squote, backslash, squote, squote] (snd kv) @ [squote]"

definition scriptContent :: "(string \<times> string) list \<Rightarrow> string" where
  "scriptContent env_vars =
     ''#!/bin/sh'' @ [newline]
     @ ''# Agor user environment variables'' @ [newline]
     @ ''# Auto-generated - do not edit manually'' @ [newline]
     @ join [newline] (map exportLine (filter (\<lambda>kv. fst kv \<notin> set skipKeys) env_vars))
     @ [newline]"

definition writeEnvFile ::
  "host \<Rightarrow> event list \<Rightarrow> string option \<Rightarrow> (string \<times> string) list \<Rightarrow> string option
    \<Rightarrow> string option \<times> event list"
where
  "writeEnvFile h tr uid env_vars chownTo =
     (case uid of
        None \<Rightarrow> (None, tr)
      | Some u \<Rightarrow>
          if u = [] then (None, tr)
          else
            (let envFile = path_join h (tmpdir h) (''agor-env-'' @ take 8 u @ ''.sh'');
                 tr1 = tr @ [WriteFile envFile (scriptContent env_vars)]
             in case writeFileSync h envFile (scriptContent env_vars) of
                  Some e \<Rightarrow> (None, tr1)
                | None \<Rightarrow>
                    (case chownTo of
                       None \<Rightarrow> (Some envFile, tr1)
                     | Some c \<Rightarrow>
                         if c = [] then (Some envFile, tr1)
                         else (Some envFile,
                               tr1 @ [ExecSync (''sudo -n chown '' @ [dquote] @ c @ [dquote]
                                        @ '' '' @ [dquote] @ envFile @ [dquote])]))))"

section \<open>Terminals service: create\<close>

text \<open>
  \<open>create\<close> follows the blocks of the source in order. \<open>authenticatedUserId\<close> is
  \<^verbatim>\<open>params?.user?.user_id\<close>.
\<close>

definition resolvedUserId :: "CreateTerminalData \<Rightarrow> string option \<Rightarrow> string option" where
  "resolvedUserId data authenticatedUserId =
     (case d_userId data of Some u \<Rightarrow> Some u | None \<Rightarrow> authenticatedUserId)"

definition userSessionSuffix :: "host \<Rightarrow> string option \<Rightarrow> string" where
  "userSessionSuffix h uid =
     (case uid of
        None \<Rightarrow> ''shared''
      | Some u \<Rightarrow> if u = [] then ''shared'' else formatShortId h u)"

text \<open>
  The Unix user of the authenticated user, if it has one: the lookup runs in a try
  block, so a failing lookup leaves \<open>None\<close>.
\<close>

definition impersonatedUser :: "host \<Rightarrow> string option \<Rightarrow> string option" where
  "impersonatedUser h authenticatedUserId =
     (case authenticatedUserId of
        None \<Rightarrow> None
      | Some a \<Rightarrow>
          if a = [] then None
          else
            (case users_findById h a of
               Inl e \<Rightarrow> None
             | Inr None \<Rightarrow> None
             | Inr (Some u) \<Rightarrow> if truthy (unix_username u) then unix_username u else None))"

definition unixUserMode :: "config \<Rightarrow> string" where
  "unixUserMode cfg = (case unix_user_mode cfg of None \<Rightarrow> ''simple'' | Some m \<Rightarrow> m)"

text \<open>
  Block "determine Unix user impersonation first": the final Unix user, or the error
  \<open>create\<close> throws.
\<close>

definition finalUnixUser :: "host \<Rightarrow> string option \<Rightarrow> error + string option" where
  "finalUnixUser h authenticatedUserId =
     (case loadConfig h of
        Inl e \<Rightarrow> Inl e
      | Inr cfg \<Rightarrow>
          (case resolveUnixUserForImpersonation h (unixUserMode cfg)
                  (impersonatedUser h authenticatedUserId) (executor_unix_user cfg) of
             Inl e \<Rightarrow> Inl e
           | Inr unixUser \<Rightarrow>
               (case validateResolvedUnixUser h (unixUserMode cfg) unixUser of
                  Valid \<Rightarrow> Inr unixUser
                | UnixUserNotFound m \<Rightarrow>
                    Inl (Error (m @ ''. Ensure the Unix user is created before attempting terminal access.''))
                | OtherFailure e \<Rightarrow> Inl e)))"

text \<open>Block "resolve worktree and cwd": the working directory and the worktree name.\<close>

definition resolveCwd ::
  "host \<Rightarrow> CreateTerminalData \<Rightarrow> string option \<Rightarrow> error + (string \<times> string option)"
where
  "resolveCwd h data unixUser =
     (let cwd0 = or_else (d_cwd data) (homedir h)
      in case d_worktreeId data of
           None \<Rightarrow> Inr (cwd0, None)
         | Some wid \<Rightarrow>
             if wid = [] then Inr (cwd0, None)
             else
               (case worktrees_findById h wid of
                  Inl e \<Rightarrow> Inl e
                | Inr None \<Rightarrow> Inr (cwd0, None)
                | Inr (Some wt) \<Rightarrow>
                    if truthy unixUser \<and> wt_name wt \<noteq> []
                    then
                      (let symlinkPath =
                             ''/home/'' @ or_else unixUser [] @ ''/agor/worktrees/'' @ wt_name wt
                       in Inr (if existsSync h symlinkPath then symlinkPath else wt_path wt,
                               Some (wt_name wt)))
                    else Inr (wt_path wt, Some (wt_name wt))))"

text \<open>
  Block "Zellij session and tab management": what the cache says about the session and
  the tab, and the three flags.
\<close>

record tab_plan =
  p_sessionExists :: bool
  p_zellijReused :: bool
  needsTabCreation :: bool
  needsTabSwitch :: bool

definition planTab ::
  "os \<Rightarrow> ZellijSessionCache \<Rightarrow> event list \<Rightarrow> string \<Rightarrow> string option \<Rightarrow> string
    \<Rightarrow> tab_plan \<times> ZellijSessionCache \<times> event list"
where
  "planTab sy cache tr session asUser tabName =
     (case sessionExists sy cache tr session asUser of
        (False, cache1, tr1) \<Rightarrow>
          (\<lparr>p_sessionExists = False, p_zellijReused = False,
            needsTabCreation = False, needsTabSwitch = False\<rparr>, cache1, tr1)
      | (True, cache1, tr1) \<Rightarrow>
          (case getTabs sy cache1 tr1 session asUser of
             (existingTabs, cache2, tr2) \<Rightarrow>
               if tabName \<in> set existingTabs
               then (\<lparr>p_sessionExists = True, p_zellijReused = True,
                      needsTabCreation = False, needsTabSwitch = True\<rparr>, cache2, tr2)
               else (\<lparr>p_sessionExists = True, p_zellijReused = False,
                      needsTabCreation = True, needsTabSwitch = False\<rparr>, cache2, tr2)))"

text \<open>
  Block "environment setup". The user's variables (for the environment file) and the
  process environment: the terminal defaults, without the Zellij markers, with \<open>LC_ALL\<close>
  and \<open>LC_CTYPE\<close> taken from \<open>LANG\<close> when they are not set. (When \<open>LANG\<close> is not set
  either, the source stores \<open>undefined\<close>; the model leaves the variable out.)
\<close>

definition userEnvironment :: "host \<Rightarrow> string option \<Rightarrow> error + (string \<times> string) list" where
  "userEnvironment h uid =
     (case uid of
        None \<Rightarrow> Inr []
      | Some u \<Rightarrow> if u = [] then Inr [] else resolveUserEnvironment h u)"

definition terminalDefaults :: "(string \<times> string) list" where
  "terminalDefaults =
     [(''TERM'', ''xterm-256color''), (''COLORTERM'', ''truecolor''), (''LANG'', ''C.UTF-8'')]"

definition localeDefault :: "string \<Rightarrow> (string \<times> string) list \<Rightarrow> (string \<times> string) list" where
  "localeDefault key e =
     (if truthy (map_of e key) then e
      else (case map_of e ''LANG'' of None \<Rightarrow> e | Some l \<Rightarrow> AList.update key l e))"

definition terminalEnvironment :: "host \<Rightarrow> string option \<Rightarrow> error + (string \<times> string) list" where
  "terminalEnvironment h uid =
     (case createUserProcessEnvironment h uid terminalDefaults of
        Inl e \<Rightarrow> Inl e
      | Inr baseEnv \<Rightarrow>
          Inr (localeDefault ''LC_CTYPE'' (localeDefault ''LC_ALL''
                 (AList.delete ''ZELLIJ_SESSION_NAME'' (AList.delete ''ZELLIJ'' baseEnv)))))"

text \<open>\<^verbatim>\<open>data.cols || 80\<close>: the default when the number is missing or zero.\<close>

definition num_or :: "nat option \<Rightarrow> nat \<Rightarrow> nat" where
  "num_or x dflt = (case x of None \<Rightarrow> dflt | Some n \<Rightarrow> if n = 0 then dflt else n)"

definition asUserOf :: "string option \<Rightarrow> string option" where
  "asUserOf unixUser = (if truthy unixUser then unixUser else None)"

text \<open>
  The try block around \<open>pty.spawn\<close>: an error of \<open>buildSpawnArgs\<close> or of the spawn is
  rethrown with the prefix of the source.
\<close>

definition spawnPty ::
  "host \<Rightarrow> event list \<Rightarrow> string \<Rightarrow> string option \<Rightarrow> (string \<times> string) list
    \<Rightarrow> CreateTerminalData \<Rightarrow> string \<Rightarrow> (error + IPty) \<times> event list"
where
  "spawnPty h tr session unixUser e data dir =
     (let spawnEnv =
            (case asUserOf unixUser of
               None \<Rightarrow> e
             | Some u \<Rightarrow> AList.update ''USER'' u (AList.update ''HOME'' (''/home/'' @ u) e))
      in case buildSpawnArgs h ''zellij'' [''attach'', session, ''--create''] (asUserOf unixUser)
                (if truthy unixUser then Some spawnEnv else None) of
           Inl er \<Rightarrow> (Inl (Error (''Failed to create terminal session: '' @ message er)), tr)
         | Inr (cmd, args) \<Rightarrow>
             (let tr1 = tr @ [PtySpawn cmd args (num_or (d_cols data) 80)
                                 (num_or (d_rows data) 30) dir]
              in case pty_spawn h tr1 of
                   Inl er \<Rightarrow>
                     (Inl (Error (''Failed to create terminal session: '' @ message er)), tr1)
                 | Inr p \<Rightarrow> (Inr p, tr1)))"

text \<open>
  The try block of tab management (after the PTY is ready): exactly one of the three
  tab actions, then the init commands. The result is the error caught by the catch
  clause, if any.
\<close>

definition quoted :: "string \<Rightarrow> string" where
  "quoted s = [dquote] @ s @ [dquote]"

definition configureTab ::
  "host \<Rightarrow> ZellijSessionCache \<Rightarrow> event list \<Rightarrow> string \<Rightarrow> string option \<Rightarrow> string \<Rightarrow> string
    \<Rightarrow> string option \<Rightarrow> tab_plan \<Rightarrow> error option \<times> ZellijSessionCache \<times> event list"
where
  "configureTab h cache tr session asUser tabName dir envFile plan =
     (let escapedTabName = escapeDoubleQuoted tabName;
          escapedCwd = escapeDoubleQuoted dir
      in if \<not> p_sessionExists plan then
           (case runZellijActionAsync (sys h) tr session
                   (''rename-tab '' @ quoted escapedTabName) asUser True of
              (Some e, tr1) \<Rightarrow> (Some e, cache, tr1)
            | (None, tr1) \<Rightarrow>
                (case invalidate cache tr1 session asUser of
                   (cache1, tr2) \<Rightarrow>
                     (case executeInitCommands (sys h) tr2 session
                             (buildInitCommands (homedir h) envFile dir False) asUser of
                        (r, tr3) \<Rightarrow> (r, cache1, tr3))))
         else if needsTabCreation plan then
           (case runZellijActionAsync (sys h) tr session
                   (''new-tab --name '' @ quoted escapedTabName @ '' --cwd '' @ quoted escapedCwd)
                   asUser True of
              (Some e, tr1) \<Rightarrow> (Some e, cache, tr1)
            | (None, tr1) \<Rightarrow>
                (case runZellijActionAsync (sys h) tr1 session
                        (''go-to-tab-name '' @ quoted escapedTabName) asUser True of
                   (Some e, tr2) \<Rightarrow> (Some e, cache, tr2)
                 | (None, tr2) \<Rightarrow>
                     (case invalidate cache tr2 session asUser of
                        (cache1, tr3) \<Rightarrow>
                          (case executeInitCommands (sys h) tr3 session
                                  (buildInitCommands (homedir h) envFile dir True) asUser of
                             (r, tr4) \<Rightarrow> (r, cache1, tr4)))))
         else if needsTabSwitch plan then
           (case runZellijActionAsync (sys h) tr session
                   (''go-to-tab-name '' @ quoted escapedTabName) asUser True of
              (Some e, tr1) \<Rightarrow> (Some e, cache, tr1)
            | (None, tr1) \<Rightarrow>
                (case runZellijActionAsync (sys h) tr1 session ''write 3'' asUser False of
                   (Some e, tr2) \<Rightarrow> (Some e, cache, tr2)
                 | (None, tr2) \<Rightarrow>
                     (case executeInitCommands (sys h) tr2 session
                             (buildInitCommands (homedir h) envFile dir True) asUser of
                        (r, tr3) \<Rightarrow> (r, cache, tr3))))
         else (None, cache, tr))"

text \<open>
  \<open>create\<close>. The terminal id (\<^verbatim>\<open>term-${Date.now()}-${random}\<close>) comes from the host. The
  session is stored before the PTY callbacks are wired. Between storing the session and
  tab management the source waits for the first PTY output or \<open>READY_TIMEOUT_MS\<close>;
  PTY output and PTY exit arriving meanwhile are events of their own and are not part of
  this function. The function is one call of \<open>create\<close> running alone: what other calls
  of the service do to the shared cache and table while this call is suspended at an
  \<open>await\<close> is not part of it.
\<close>

definition create ::
  "host \<Rightarrow> world \<Rightarrow> CreateTerminalData \<Rightarrow> string option \<Rightarrow> (error + create_result) \<times> world"
where
  "create h w data authenticatedUserId =
     (let tid = new_terminal_id h (trace w);
          uid = resolvedUserId data authenticatedUserId
      in case finalUnixUser h authenticatedUserId of
           Inl e \<Rightarrow> (Inl e, w)
         | Inr unixUser \<Rightarrow>
         (case resolveCwd h data unixUser of
           Inl e \<Rightarrow> (Inl e, w)
         | Inr (dir, wtName) \<Rightarrow>
         (let session = ''agor-'' @ userSessionSuffix h uid;
              asUser = asUserOf unixUser;
              tabName = or_else wtName ''terminal''
          in case planTab (sys h) (zellijCache w) (trace w) session asUser tabName of
           (plan, cache1, tr1) \<Rightarrow>
         (let w1 = w\<lparr>trace := tr1, zellijCache := cache1\<rparr>
          in case userEnvironment h uid of
           Inl e \<Rightarrow> (Inl e, w1)
         | Inr userEnv \<Rightarrow>
         (case terminalEnvironment h uid of
           Inl e \<Rightarrow> (Inl e, w1)
         | Inr e \<Rightarrow>
         (case writeEnvFile h tr1 uid userEnv unixUser of
           (envFile, tr2) \<Rightarrow>
         (case spawnPty h tr2 session unixUser e data dir of
           (Inl er, tr3) \<Rightarrow> (Inl er, w1\<lparr>trace := tr3\<rparr>)
         | (Inr ptyProcess, tr3) \<Rightarrow>
         (let stored =
                \<lparr>terminalId = tid, pty = ptyProcess, shell = ''zellij'', cwd = dir,
                 userId = uid, worktreeId = d_worktreeId data, zellijSession = session,
                 cols = num_or (d_cols data) 80, rows = num_or (d_rows data) 30,
                 createdAt = date_now (sys h) tr3, env = e, batcher = new_batcher\<rparr>;
              w2 = w1\<lparr>trace := tr3, sessions := AList.update tid stored (sessions w1)\<rparr>
          in case configureTab h cache1 tr3 session asUser tabName dir envFile plan of
               (Some er, cache2, tr4) \<Rightarrow>
                 (Inl (Error (''Zellij tab configuration failed: '' @ message er)),
                  w2\<lparr>trace := tr4, zellijCache := cache2\<rparr>)
             | (None, cache2, tr4) \<Rightarrow>
                 (Inr \<lparr>r_terminalId = tid, r_cwd = dir, r_zellijSession = session,
                       zellijReused = p_zellijReused plan, worktreeName = wtName\<rparr>,
                  w2\<lparr>trace := tr4, zellijCache := cache2\<rparr>)))))))))"

section \<open>Terminals service: get, remove, cleanup\<close>

definition not_found :: "string \<Rightarrow> error" where
  "not_found tid = Error (''Terminal '' @ tid @ '' not found'')"

definition get :: "world \<Rightarrow> string \<Rightarrow> error + get_result" where
  "get w tid =
     (case map_of (sessions w) tid of
        None \<Rightarrow> Inl (not_found tid)
      | Some session \<Rightarrow>
          Inr \<lparr>g_terminalId = terminalId session, g_cwd = cwd session, alive = True\<rparr>)"

text \<open>
  The \<open>onFlush\<close> callback that \<open>create\<close> gives a terminal's batcher emits a \<open>data\<close> event
  for the terminal inside a try block: it returns normally whether the emit throws or
  not. \<open>flush_session\<close> is \<^verbatim>\<open>session.batcher.flush()\<close> with that callback.
\<close>

definition flush_session :: "TerminalSession \<Rightarrow> TerminalSession \<times> event list" where
  "flush_session s =
     (case flush (batcher s) of
        (b, None) \<Rightarrow> (s\<lparr>batcher := b\<rparr>, [])
      | (b, Some buffered) \<Rightarrow> (s\<lparr>batcher := b\<rparr>, [Emit (terminalId s) ''data'' buffered]))"

text \<open>
  One terminal's teardown, as \<open>remove\<close> and the loop body of \<open>cleanup\<close> write it: flush,
  destroy, kill. The error is the one \<open>pty.kill\<close> throws.
\<close>

definition teardown :: "TerminalSession \<Rightarrow> error option \<times> TerminalSession \<times> event list" where
  "teardown s =
     (case flush_session s of
        (s1, emitted) \<Rightarrow>
          (map_option Error (kill_throws (pty s1)),
           s1\<lparr>batcher := destroy (batcher s1)\<rparr>,
           emitted @ [PtyKill (pid (pty s1)) ''SIGTERM'']))"

definition remove :: "world \<Rightarrow> string \<Rightarrow> (error + string) \<times> world" where
  "remove w tid =
     (case map_of (sessions w) tid of
        None \<Rightarrow> (Inl (not_found tid), w)
      | Some session \<Rightarrow>
          (case teardown session of
             (Some e, s1, evs) \<Rightarrow>
               (Inl e, w\<lparr>trace := trace w @ evs, sessions := AList.update tid s1 (sessions w)\<rparr>)
           | (None, s1, evs) \<Rightarrow>
               (Inr tid, w\<lparr>trace := trace w @ evs, sessions := AList.delete tid (sessions w)\<rparr>)))"

text \<open>
  The loop of \<open>cleanup\<close> over the table's values in insertion order. It stops at the
  first terminal whose teardown throws; the terminals visited so far keep the changes
  made to their batchers.
\<close>

fun cleanup_loop ::
  "(string \<times> TerminalSession) list \<Rightarrow> error option \<times> (string \<times> TerminalSession) list \<times> event list"
where
  "cleanup_loop [] = (None, [], [])"
| "cleanup_loop ((k, s) # rest) =
     (case teardown s of
        (Some e, s1, evs) \<Rightarrow> (Some e, (k, s1) # rest, evs)
      | (None, s1, evs) \<Rightarrow>
          (case cleanup_loop rest of
             (r, rest1, evs1) \<Rightarrow> (r, (k, s1) # rest1, evs @ evs1)))"

definition cleanup :: "world \<Rightarrow> error option \<times> world" where
  "cleanup w =
     (case cleanup_loop (sessions w) of
        (Some e, table, evs) \<Rightarrow> (Some e, w\<lparr>trace := trace w @ evs, sessions := table\<rparr>)
      | (None, table, evs) \<Rightarrow> (None, w\<lparr>trace := trace w @ evs, sessions := []\<rparr>))"

section \<open>Reading a trace\<close>





section \<open>Sample inputs\<close>

text \<open>
  Concrete collaborators and states for the examples below. \<open>sample_os\<close> runs every
  command successfully with empty output; \<open>failing_os\<close> fails every command. In
  \<open>sample_host\<close> no user is mapped to a Unix user, the short id is the first eight
  characters, and the validation outcome is a parameter.
\<close>

definition sample_os :: os where
  "sample_os = \<lparr>exec = (\<lambda>tr c. Stdout []), date_now = (\<lambda>tr. 0)\<rparr>"

definition failing_os :: os where
  "failing_os = \<lparr>exec = (\<lambda>tr c. ExecError ''spawn zellij ETIMEDOUT''), date_now = (\<lambda>tr. 0)\<rparr>"

definition sample_host :: "os \<Rightarrow> validation \<Rightarrow> host" where
  "sample_host sy v =
     \<lparr>sys = sy, homedir = ''/root'', tmpdir = ''/tmp'',
      path_join = (\<lambda>a b. a @ ''/'' @ b),
      new_terminal_id = (\<lambda>tr. ''term-1''),
      loadConfig = Inr \<lparr>unix_user_mode = None, executor_unix_user = None\<rparr>,
      users_findById = (\<lambda>i. Inr None),
      worktrees_findById = (\<lambda>i. Inr None),
      formatShortId = take 8,
      resolveUnixUserForImpersonation = (\<lambda>mode u e. Inr None),
      validateResolvedUnixUser = (\<lambda>mode u. v),
      existsSync = (\<lambda>p. False),
      resolveUserEnvironment = (\<lambda>i. Inr []),
      createUserProcessEnvironment = (\<lambda>i dflt. Inr dflt),
      buildSpawnArgs = (\<lambda>c args u e. Inr (c, args)),
      writeFileSync = (\<lambda>p c. None),
      pty_spawn = (\<lambda>tr. Inr \<lparr>pid = 1, kill_throws = None\<rparr>)\<rparr>"

definition no_data :: CreateTerminalData where
  "no_data = \<lparr>d_cwd = None, d_shell = None, d_rows = None, d_cols = None,
              d_userId = None, d_worktreeId = None\<rparr>"

definition empty_world :: world where
  "empty_world = \<lparr>trace = [], zellijCache = empty_cache, sessions = []\<rparr>"

definition sample_session :: "string \<Rightarrow> nat \<Rightarrow> string option \<Rightarrow> TerminalSession" where
  "sample_session tid p k =
     \<lparr>terminalId = tid, pty = \<lparr>pid = p, kill_throws = k\<rparr>, shell = ''zellij'', cwd = ''/tmp'',
      userId = None, worktreeId = None, zellijSession = ''agor-shared'', cols = 80, rows = 30,
      createdAt = 0, env = [], batcher = \<lparr>buffer = ''out'', timer = True\<rparr>\<rparr>"

definition sample_world :: "(string \<times> TerminalSession) list \<Rightarrow> world" where
  "sample_world table = \<lparr>trace = [], zellijCache = empty_cache, sessions = table\<rparr>"

definition user_data :: CreateTerminalData where
  "user_data = no_data\<lparr>d_userId := Some ''0199aaaa-bbbb''\<rparr>"

definition other_data :: CreateTerminalData where
  "other_data = no_data\<lparr>d_cwd := Some ''/srv'', d_shell := Some ''fish'',
                         d_rows := Some 40, d_cols := Some 120\<rparr>"



text \<open>
  Sample Unix-user helpers that depend on the configured mode, for the examples (the
  helpers of the repository are not part of the service's file): mode \<open>strict\<close> runs as
  the user's mapped Unix user and requires one, mode \<open>insulated\<close> runs as the executor
  user, any other mode runs as the daemon. \<open>mode_host mode\<close> is a host with that mode
  configured, in which the authenticated user exists and is mapped to no Unix user.
\<close>

definition sample_resolve :: "string \<Rightarrow> string option \<Rightarrow> string option \<Rightarrow> error + string option" where
  "sample_resolve mode mapped executor =
     (if mode = ''strict'' then Inr mapped
      else if mode = ''insulated'' then Inr executor
      else Inr None)"

definition sample_validate :: "string \<Rightarrow> string option \<Rightarrow> validation" where
  "sample_validate mode unixUser =
     (if mode = ''strict'' \<and> \<not> truthy unixUser
      then UnixUserNotFound ''Strict mode requires a Unix user and none is mapped''
      else Valid)"

definition mode_host :: "string option \<Rightarrow> host" where
  "mode_host mode =
     (sample_host sample_os Valid)
       \<lparr>loadConfig := Inr \<lparr>unix_user_mode = mode, executor_unix_user = None\<rparr>,
        users_findById := (\<lambda>i. Inr (Some \<lparr>unix_username = None\<rparr>)),
        resolveUnixUserForImpersonation := sample_resolve,
        validateResolvedUnixUser := sample_validate\<rparr>"

section \<open>Properties of the escaper\<close>

lemmas char_defs = squote_def dquote_def backslash_def dollar_def backtick_def newline_def

lemma replace_all_Nil: "replace_all c r [] = []"
  by (simp add: replace_all_def)

lemma replace_all_Cons:
  "replace_all c r (x # xs) = (if x = c then r else [x]) @ replace_all c r xs"
  by (simp add: replace_all_def)

lemma replace_all_append:
  "replace_all c r (xs @ ys) = replace_all c r xs @ replace_all c r ys"
  by (simp add: replace_all_def)

lemma escapeDoubleQuoted_Nil: "escapeDoubleQuoted [] = []"
  by (simp add: escapeDoubleQuoted_def replace_all_Nil)

lemma escapeDoubleQuoted_Cons:
  "escapeDoubleQuoted (x # xs) =
     (if dq_escapable x then [backslash, x] else [x]) @ escapeDoubleQuoted xs"
  by (simp add: escapeDoubleQuoted_def replace_all_Cons replace_all_append replace_all_Nil
      dq_escapable_def char_defs)

lemma escapeDoubleQuoted_one_pass:
  "escapeDoubleQuoted s = concat (map (\<lambda>c. if dq_escapable c then [backslash, c] else [c]) s)"
  by (induction s) (simp_all add: escapeDoubleQuoted_Nil escapeDoubleQuoted_Cons)

lemma single_quoted_body:
  "sh_literal SingleQuoted
     (replace_all squote [squote, backslash, squote, squote] s @ squote # rest)
   = map_option ((@) s) (sh_literal Unquoted rest)"
proof (induction s)
  case Nil
  show ?case by (simp add: replace_all_Nil option.map_ident)
next
  case (Cons x xs)
  show ?case
  proof (cases "x = squote")
    case True
    have "backslash \<noteq> squote" "squote \<noteq> dquote" "squote \<noteq> newline" "backslash \<noteq> dquote"
      by (simp_all add: char_defs)
    with True Cons show ?thesis
      by (cases "sh_literal Unquoted rest") (simp_all add: replace_all_Cons)
  next
    case False
    with Cons show ?thesis
      by (cases "sh_literal Unquoted rest") (simp_all add: replace_all_Cons)
  qed
qed

lemma double_quoted_body:
  "sh_literal DoubleQuoted (escapeDoubleQuoted s @ dquote # rest)
   = map_option ((@) s) (sh_literal Unquoted rest)"
proof (induction s)
  case Nil
  show ?case by (simp add: escapeDoubleQuoted_Nil option.map_ident)
next
  case (Cons x xs)
  show ?case
  proof (cases "dq_escapable x")
    case True
    have "backslash \<noteq> dquote" "backslash \<noteq> dollar" "backslash \<noteq> backtick"
      by (simp_all add: char_defs)
    with True Cons show ?thesis
      by (cases "sh_literal Unquoted rest") (simp_all add: escapeDoubleQuoted_Cons)
  next
    case False
    then have "x \<noteq> dquote" "x \<noteq> dollar" "x \<noteq> backtick" "x \<noteq> backslash"
      by (auto simp: dq_escapable_def)
    with False Cons show ?thesis
      by (cases "sh_literal Unquoted rest") (simp_all add: escapeDoubleQuoted_Cons)
  qed
qed

lemma escapeShellArg_read:
  "sh_literal Unquoted (escapeShellArg s @ rest) = map_option ((@) s) (sh_literal Unquoted rest)"
  using single_quoted_body [of s rest] by (simp add: escapeShellArg_def)

lemma quoted_read:
  "sh_literal Unquoted (quoted (escapeDoubleQuoted s) @ rest)
   = map_option ((@) s) (sh_literal Unquoted rest)"
proof -
  have "squote \<noteq> dquote" by (simp add: char_defs)
  then show ?thesis
    using double_quoted_body [of s rest] by (simp add: quoted_def)
qed

text \<open>
  C1. For every string \<open>s\<close>: \<open>escapeShellArg s\<close> is \<open>s\<close> between single quotes with every
  single quote replaced by quote-backslash-quote-quote; \<open>escapeDoubleQuoted s\<close> puts a
  backslash before every backslash, double quote, dollar sign and backquote and changes
  nothing else; and a POSIX shell that reads the single-quoted fragment, or the
  double-quoted fragment between double quotes, obtains exactly \<open>s\<close> and goes on reading
  what follows (\<open>rest\<close>) outside quotes.
\<close>

theorem escaper_round_trip:
  "escapeShellArg s
     = [squote] @ concat (map (\<lambda>c. if c = squote then [squote, backslash, squote, squote] else [c]) s)
       @ [squote]
   \<and> escapeDoubleQuoted s
     = concat (map (\<lambda>c. if c = backslash \<or> c = dquote \<or> c = dollar \<or> c = backtick
                          then [backslash, c] else [c]) s)
   \<and> sh_literal Unquoted (escapeShellArg s) = Some s
   \<and> sh_literal Unquoted ([dquote] @ escapeDoubleQuoted s @ [dquote]) = Some s
   \<and> sh_literal Unquoted (escapeShellArg s @ rest) = map_option ((@) s) (sh_literal Unquoted rest)
   \<and> sh_literal Unquoted ([dquote] @ escapeDoubleQuoted s @ [dquote] @ rest)
     = map_option ((@) s) (sh_literal Unquoted rest)"
proof (intro conjI)
  show "escapeShellArg s
     = [squote] @ concat (map (\<lambda>c. if c = squote then [squote, backslash, squote, squote] else [c]) s)
       @ [squote]"
    by (simp add: escapeShellArg_def replace_all_def)
  have "(\<lambda>c. if c = backslash \<or> c = dquote \<or> c = dollar \<or> c = backtick
              then [backslash, c] else [c])
        = (\<lambda>c. if dq_escapable c then [backslash, c] else [c])"
    by (auto simp: dq_escapable_def)
  then show "escapeDoubleQuoted s
     = concat (map (\<lambda>c. if c = backslash \<or> c = dquote \<or> c = dollar \<or> c = backtick
                          then [backslash, c] else [c]) s)"
    by (simp add: escapeDoubleQuoted_one_pass)
  show "sh_literal Unquoted (escapeShellArg s) = Some s"
    using escapeShellArg_read [of s "[]"] by simp
  show "sh_literal Unquoted ([dquote] @ escapeDoubleQuoted s @ [dquote]) = Some s"
    using quoted_read [of s "[]"] by (simp add: quoted_def)
  show "sh_literal Unquoted (escapeShellArg s @ rest)
        = map_option ((@) s) (sh_literal Unquoted rest)"
    by (rule escapeShellArg_read)
  show "sh_literal Unquoted ([dquote] @ escapeDoubleQuoted s @ [dquote] @ rest)
        = map_option ((@) s) (sh_literal Unquoted rest)"
    using quoted_read [of s rest] by (simp add: quoted_def)
qed

theorem escaper_round_trip_witness:
  "sh_literal Unquoted (escapeShellArg [CHR ''a'', squote, backslash, dollar, backtick, dquote])
     = Some [CHR ''a'', squote, backslash, dollar, backtick, dquote]
   \<and> sh_literal Unquoted
       ([dquote] @ escapeDoubleQuoted [CHR ''a'', squote, backslash, dollar, backtick, dquote]
          @ [dquote])
     = Some [CHR ''a'', squote, backslash, dollar, backtick, dquote]"
  using escaper_round_trip [of "[CHR ''a'', squote, backslash, dollar, backtick, dquote]" "[]"]
  by blast

section \<open>Properties of the output batcher\<close>

lemma flush_buffer_empty: "buffer (fst (flush b)) = []"
  by (simp add: flush_def Let_def)

lemma MAX_BUFFER_SIZE_pos: "0 < MAX_BUFFER_SIZE"
  by (simp add: MAX_BUFFER_SIZE_def)

text \<open>
  C6. Whatever the state of the batcher before (buffer contents, timer pending or not),
  after \<open>push\<close> returns the buffer is strictly shorter than \<open>MAX_BUFFER_SIZE\<close>. A push that
  brings the buffer to the ceiling or beyond flushes at once: the whole buffer is handed
  to \<open>onFlush\<close>, the buffer is empty and no timer is pending. A push that stays below the
  ceiling hands nothing to \<open>onFlush\<close> and leaves a timer pending.
\<close>

theorem push_below_ceiling:
  "length (buffer (fst (push b d))) < MAX_BUFFER_SIZE
   \<and> (MAX_BUFFER_SIZE \<le> length (buffer b @ d) \<longrightarrow>
        push b d = (\<lparr>buffer = [], timer = False\<rparr>, Some (buffer b @ d)))
   \<and> (length (buffer b @ d) < MAX_BUFFER_SIZE \<longrightarrow>
        push b d = (\<lparr>buffer = buffer b @ d, timer = True\<rparr>, None))"
proof (intro conjI impI)
  show "length (buffer (fst (push b d))) < MAX_BUFFER_SIZE"
    using MAX_BUFFER_SIZE_pos by (simp add: push_def Let_def flush_buffer_empty)
next
  assume "MAX_BUFFER_SIZE \<le> length (buffer b @ d)"
  moreover from this have "buffer b @ d \<noteq> []"
    using MAX_BUFFER_SIZE_pos by auto
  ultimately show "push b d = (\<lparr>buffer = [], timer = False\<rparr>, Some (buffer b @ d))"
    by (simp add: push_def flush_def Let_def)
next
  assume "length (buffer b @ d) < MAX_BUFFER_SIZE"
  then show "push b d = (\<lparr>buffer = buffer b @ d, timer = True\<rparr>, None)"
    by (cases "timer b") (simp_all add: push_def Let_def)
qed

theorem push_below_ceiling_witness:
  "MAX_BUFFER_SIZE \<le> length (buffer \<lparr>buffer = replicate 1048575 (CHR ''x''), timer = True\<rparr> @ ''y'')
   \<and> push \<lparr>buffer = replicate 1048575 (CHR ''x''), timer = True\<rparr> ''y''
       = (\<lparr>buffer = [], timer = False\<rparr>, Some (replicate 1048575 (CHR ''x'') @ ''y''))
   \<and> length (buffer \<lparr>buffer = ''ab'', timer = False\<rparr> @ ''c'') < MAX_BUFFER_SIZE
   \<and> push \<lparr>buffer = ''ab'', timer = False\<rparr> ''c'' = (\<lparr>buffer = ''abc'', timer = True\<rparr>, None)"
  using push_below_ceiling [of "\<lparr>buffer = replicate 1048575 (CHR ''x''), timer = True\<rparr>" "''y''"]
    push_below_ceiling [of "\<lparr>buffer = ''ab'', timer = False\<rparr>" "''c''"]
  by (simp add: MAX_BUFFER_SIZE_def)

text \<open>
  C9. With an empty buffer \<open>flush\<close> hands nothing to \<open>onFlush\<close> (it only cancels a pending
  timer), and it has no failing branch of its own. A second \<open>flush\<close> right after a first
  hands nothing to \<open>onFlush\<close> and leaves the batcher as the first left it, so two calls
  emit what one emits.
\<close>

theorem flush_empty_idempotent:
  "(buffer b = [] \<longrightarrow> flush b = (b\<lparr>timer := False\<rparr>, None))
   \<and> flush (fst (flush b)) = (fst (flush b), None)"
  by (simp add: flush_def Let_def)

theorem flush_empty_idempotent_witness:
  "buffer \<lparr>buffer = [], timer = True\<rparr> = []
   \<and> flush \<lparr>buffer = [], timer = True\<rparr> = (\<lparr>buffer = [], timer = False\<rparr>, None)
   \<and> flush (fst (flush \<lparr>buffer = ''abc'', timer = True\<rparr>)) = (\<lparr>buffer = [], timer = False\<rparr>, None)"
  using flush_empty_idempotent [of "\<lparr>buffer = [], timer = True\<rparr>"]
    flush_empty_idempotent [of "\<lparr>buffer = ''abc'', timer = True\<rparr>"]
  by (simp add: flush_def)

section \<open>Properties of the query cache\<close>

lemma zellijSessionExistsAsync_error:
  "exec sy tr (fullCommand ''zellij list-sessions 2>/dev/null'' u) = ExecError m \<Longrightarrow>
     fst (zellijSessionExistsAsync sy tr s u) = False"
  by (simp add: zellijSessionExistsAsync_def runAsUserAsync_def Let_def)

lemma fetchTabs_error:
  "exec sy tr (fullCommand (''zellij --session '' @ [dquote] @ s @ [dquote]
                @ '' action query-tab-names 2>/dev/null'') u) = ExecError m \<Longrightarrow>
     fst (fetchTabs sy tr s u) = []"
  by (simp add: fetchTabs_def runAsUserAsync_def Let_def)


text \<open>
  C4. When the cache holds no fresh entry for the key, so that the multiplexer is
  queried, and the query command fails (a command killed at its timeout fails as well),
  \<open>sessionExists\<close> returns \<open>False\<close> and \<open>getTabs\<close> returns the empty list. Both functions
  return a plain value: they have no way to pass the error on.
\<close>

theorem cache_reads_degrade:
  "(cache_hit (existsCache c (getCacheKey s u)) (date_now sy tr) = None
      \<and> exec sy tr (fullCommand ''zellij list-sessions 2>/dev/null'' u) = ExecError m
    \<longrightarrow> fst (sessionExists sy c tr s u) = False)
   \<and> (cache_hit (tabsCache c (getCacheKey s u)) (date_now sy tr) = None
      \<and> exec sy tr (fullCommand (''zellij --session '' @ [dquote] @ s @ [dquote]
                @ '' action query-tab-names 2>/dev/null'') u) = ExecError m
    \<longrightarrow> fst (getTabs sy c tr s u) = [])"
proof (intro conjI impI)
  assume a: "cache_hit (existsCache c (getCacheKey s u)) (date_now sy tr) = None
      \<and> exec sy tr (fullCommand ''zellij list-sessions 2>/dev/null'' u) = ExecError m"
  then have "fst (zellijSessionExistsAsync sy tr s u) = False"
    using zellijSessionExistsAsync_error by blast
  with a show "fst (sessionExists sy c tr s u) = False"
    by (auto simp: sessionExists_def Let_def split: prod.splits)
next
  assume a: "cache_hit (tabsCache c (getCacheKey s u)) (date_now sy tr) = None
      \<and> exec sy tr (fullCommand (''zellij --session '' @ [dquote] @ s @ [dquote]
                @ '' action query-tab-names 2>/dev/null'') u) = ExecError m"
  then have "fst (fetchTabs sy tr s u) = []"
    using fetchTabs_error by blast
  with a show "fst (getTabs sy c tr s u) = []"
    by (auto simp: getTabs_def Let_def split: prod.splits)
qed

theorem cache_reads_degrade_witness:
  "fst (sessionExists failing_os empty_cache [] ''agor-shared'' None) = False
   \<and> fst (getTabs failing_os empty_cache [] ''agor-shared'' None) = []"
  using cache_reads_degrade [of empty_cache "''agor-shared''" None failing_os "[]"
      "''spawn zellij ETIMEDOUT''"]
  by (simp add: failing_os_def empty_cache_def cache_hit_def)

section \<open>Properties of get and cleanup\<close>

text \<open>
  C10. For a terminal id in the table \<open>get\<close> returns the stored id and directory with
  \<open>alive = True\<close>; for any other id it fails with not-found; so whenever \<open>get\<close> returns,
  \<open>alive\<close> is \<open>True\<close>. The answer does not read the PTY handle.
\<close>

theorem get_alive_constant:
  "(map_of (sessions w) tid = Some s \<longrightarrow>
      get w tid = Inr \<lparr>g_terminalId = terminalId s, g_cwd = cwd s, alive = True\<rparr>)
   \<and> (map_of (sessions w) tid = None \<longrightarrow> get w tid = Inl (not_found tid))
   \<and> (get w tid = Inr r \<longrightarrow> alive r = True)"
  by (auto simp: get_def split: option.splits)

theorem get_alive_constant_witness:
  "map_of (sessions (sample_world [(''t1'', sample_session ''t1'' 1 None)])) ''t1''
     = Some (sample_session ''t1'' 1 None)
   \<and> get (sample_world [(''t1'', sample_session ''t1'' 1 None)]) ''t1''
     = Inr \<lparr>g_terminalId = ''t1'', g_cwd = ''/tmp'', alive = True\<rparr>
   \<and> map_of (sessions (sample_world [(''t1'', sample_session ''t1'' 1 None)])) ''t2'' = None
   \<and> get (sample_world [(''t1'', sample_session ''t1'' 1 None)]) ''t2'' = Inl (not_found ''t2'')"
  using get_alive_constant [of "sample_world [(''t1'', sample_session ''t1'' 1 None)]" "''t1''"
      "sample_session ''t1'' 1 None"]
    get_alive_constant [of "sample_world [(''t1'', sample_session ''t1'' 1 None)]" "''t2''"]
  by (simp add: sample_world_def sample_session_def)

lemma pty_flush_session: "pty (fst (flush_session s)) = pty s"
  by (simp add: flush_session_def split: prod.splits option.splits)

lemma teardown_error: "fst (teardown s) = map_option Error (kill_throws (pty s))"
  using pty_flush_session [of s] by (auto simp: teardown_def split: prod.splits)

lemma cleanup_loop_ok:
  "(fst (cleanup_loop table) = None) = (\<forall>s \<in> set (map snd table). kill_throws (pty s) = None)"
proof (induction table)
  case Nil
  show ?case by simp
next
  case (Cons a table)
  obtain k s where a: "a = (k, s)" by (cases a)
  obtain r s1 evs where t: "teardown s = (r, s1, evs)" by (cases "teardown s")
  have r: "r = map_option Error (kill_throws (pty s))"
    using teardown_error [of s] t by simp
  show ?case
  proof (cases "kill_throws (pty s)")
    case None
    with Cons a t r show ?thesis by (auto split: prod.splits)
  next
    case (Some m)
    with a t r show ?thesis by simp
  qed
qed

lemma cleanup_loop_events:
  "fst (cleanup_loop table) = None \<Longrightarrow>
     snd (snd (cleanup_loop table)) = concat (map (\<lambda>ks. snd (snd (teardown (snd ks)))) table)"
proof (induction table)
  case Nil
  show ?case by simp
next
  case (Cons a table)
  obtain k s where a: "a = (k, s)" by (cases a)
  obtain r s1 evs where t: "teardown s = (r, s1, evs)" by (cases "teardown s")
  from Cons.prems a t have r: "r = None"
    by (cases r) simp_all
  with Cons.prems a t have "fst (cleanup_loop table) = None"
    by (simp split: prod.splits)
  with Cons.IH a t r show ?case by (auto split: prod.splits)
qed

text \<open>
  C2, as the code has it. \<open>cleanup\<close> returns normally exactly when no terminal's
  \<open>pty.kill\<close> throws (a failing emit during a flush is caught inside the batcher's
  callback and never reaches \<open>cleanup\<close>). When it returns normally every terminal of the
  table has been flushed, destroyed and killed, in table order, and the table is empty.
\<close>

theorem cleanup_when_no_kill_throws:
  "((fst (cleanup w) = None) = (\<forall>s \<in> set (map snd (sessions w)). kill_throws (pty s) = None))
   \<and> (fst (cleanup w) = None \<longrightarrow>
        snd (cleanup w) =
          w\<lparr>trace := trace w @ concat (map (\<lambda>ks. snd (snd (teardown (snd ks)))) (sessions w)),
            sessions := []\<rparr>)"
proof (intro conjI impI)
  obtain r table evs where c: "cleanup_loop (sessions w) = (r, table, evs)"
    by (cases "cleanup_loop (sessions w)")
  have "(fst (cleanup w) = None) = (r = None)"
    using c by (cases r) (simp_all add: cleanup_def)
  then show "(fst (cleanup w) = None) = (\<forall>s \<in> set (map snd (sessions w)). kill_throws (pty s) = None)"
    using cleanup_loop_ok [of "sessions w"] c by simp
  assume ok: "fst (cleanup w) = None"
  with c have r: "r = None" by (cases r) (simp_all add: cleanup_def)
  with c have "evs = concat (map (\<lambda>ks. snd (snd (teardown (snd ks)))) (sessions w))"
    using cleanup_loop_events [of "sessions w"] by simp
  with c r show "snd (cleanup w) =
          w\<lparr>trace := trace w @ concat (map (\<lambda>ks. snd (snd (teardown (snd ks)))) (sessions w)),
            sessions := []\<rparr>"
    by (simp add: cleanup_def)
qed

theorem cleanup_when_no_kill_throws_witness:
  "cleanup (sample_world [(''t1'', sample_session ''t1'' 1 None),
                          (''t2'', sample_session ''t2'' 2 None)])
     = (None, \<lparr>trace = [Emit ''t1'' ''data'' ''out'', PtyKill 1 ''SIGTERM'',
                          Emit ''t2'' ''data'' ''out'', PtyKill 2 ''SIGTERM''],
               zellijCache = empty_cache, sessions = []\<rparr>)"
  using cleanup_when_no_kill_throws [of "sample_world [(''t1'', sample_session ''t1'' 1 None),
                               (''t2'', sample_session ''t2'' 2 None)]"]
  by (simp add: prod_eq_iff teardown_def flush_session_def flush_def destroy_def
      sample_world_def sample_session_def)

text \<open>
  C2, as the claim states it, fails: with two terminals in the table, the first of which
  has a PTY whose \<open>kill\<close> throws, \<open>cleanup\<close> throws that error, both terminals are still in
  the table, and the second terminal is neither flushed nor killed.
\<close>

theorem cleanup_never_throws_counterexample:
  "fst (cleanup (sample_world [(''t1'', sample_session ''t1'' 1 (Some ''ESRCH'')),
                               (''t2'', sample_session ''t2'' 2 None)])) = Some (Error ''ESRCH'')
   \<and> map fst (sessions (snd (cleanup (sample_world [(''t1'', sample_session ''t1'' 1 (Some ''ESRCH'')),
                               (''t2'', sample_session ''t2'' 2 None)])))) = [''t1'', ''t2'']
   \<and> trace (snd (cleanup (sample_world [(''t1'', sample_session ''t1'' 1 (Some ''ESRCH'')),
                               (''t2'', sample_session ''t2'' 2 None)])))
       = [Emit ''t1'' ''data'' ''out'', PtyKill 1 ''SIGTERM'']"
  by (simp add: cleanup_def teardown_def flush_session_def flush_def destroy_def
      sample_world_def sample_session_def)

section \<open>Properties of the init commands\<close>

lemmas model_defs =
  create_def finalUnixUser_def resolveCwd_def planTab_def sessionExists_def getTabs_def
  zellijSessionExistsAsync_def fetchTabs_def runAsUserAsync_def runZellijActionAsync_def
  configureTab_def executeInitCommands_def buildInitCommands_def invalidate_def
  writeEnvFile_def spawnPty_def userEnvironment_def terminalEnvironment_def
  localeDefault_def terminalDefaults_def resolvedUserId_def userSessionSuffix_def
  impersonatedUser_def unixUserMode_def asUserOf_def truthy_def or_else_def num_or_def
  getCacheKey_def cache_hit_def fullCommand_def zellij_action_cmd_def quoted_def
  new_batcher_def trim_def is_space_def Let_def

lemmas sample_defs =
  sample_host_def sample_os_def failing_os_def empty_world_def no_data_def empty_cache_def

lemmas escape_defs = escapeShellArg_def escapeDoubleQuoted_def replace_all_def char_defs











section \<open>Properties of create\<close>









lemma create_success:
  assumes "create h w d a = (Inr res, w')"
  obtains u dir wtName plan cache1 tr1 userEnv e envFile tr2 p tr3 cache2 tr4 where
    "finalUnixUser h a = Inr u"
    "resolveCwd h d u = Inr (dir, wtName)"
    "planTab (sys h) (zellijCache w) (trace w) (''agor-'' @ userSessionSuffix h (resolvedUserId d a))
        (asUserOf u) (or_else wtName ''terminal'') = (plan, cache1, tr1)"
    "writeEnvFile h tr1 (resolvedUserId d a) userEnv u = (envFile, tr2)"
    "spawnPty h tr2 (''agor-'' @ userSessionSuffix h (resolvedUserId d a)) u e d dir = (Inr p, tr3)"
    "configureTab h cache1 tr3 (''agor-'' @ userSessionSuffix h (resolvedUserId d a)) (asUserOf u)
        (or_else wtName ''terminal'') dir envFile plan = (None, cache2, tr4)"
    "r_zellijSession res = ''agor-'' @ userSessionSuffix h (resolvedUserId d a)"
    "r_cwd res = dir"
    "zellijReused res = p_zellijReused plan"
    "trace w' = tr4" "zellijCache w' = cache2"
  using assms
  by (auto simp: create_def Let_def split: sum.splits prod.splits option.splits)













lemmas eval_defs = model_defs sample_defs escape_defs

lemma sample_create_result:
  "fst (create (sample_host sample_os Valid) empty_world no_data None)
     = Inr \<lparr>r_terminalId = ''term-1'', r_cwd = ''/root'', r_zellijSession = ''agor-shared'',
            zellijReused = False, worktreeName = None\<rparr>"
  by (simp add: eval_defs)






text \<open>
  C8, as the code has it. The session name \<open>create\<close> returns is \<open>agor-\<close> followed by the
  suffix of the resolved user id (the \<open>userId\<close> of the request, else the authenticated
  user): \<open>shared\<close> without one, else its short id. Two calls with the same resolved user
  id return the same session name, whatever their state, worktree, directory, shell,
  dimensions and Unix user.
\<close>

theorem session_name_from_user_id:
  "(create h w d a = (Inr res, w') \<longrightarrow>
      r_zellijSession res = ''agor-'' @ userSessionSuffix h (resolvedUserId d a))
   \<and> (create h w1 d1 a1 = (Inr res1, w1') \<and> create h w2 d2 a2 = (Inr res2, w2')
        \<and> resolvedUserId d1 a1 = resolvedUserId d2 a2
      \<longrightarrow> r_zellijSession res1 = r_zellijSession res2)"
proof (intro conjI impI)
  assume "create h w d a = (Inr res, w')"
  then show "r_zellijSession res = ''agor-'' @ userSessionSuffix h (resolvedUserId d a)"
    by (rule create_success)
next
  assume a: "create h w1 d1 a1 = (Inr res1, w1') \<and> create h w2 d2 a2 = (Inr res2, w2')
        \<and> resolvedUserId d1 a1 = resolvedUserId d2 a2"
  then have "r_zellijSession res1 = ''agor-'' @ userSessionSuffix h (resolvedUserId d1 a1)"
    by (blast elim: create_success)
  moreover from a have "r_zellijSession res2 = ''agor-'' @ userSessionSuffix h (resolvedUserId d2 a2)"
    by (blast elim: create_success)
  ultimately show "r_zellijSession res1 = r_zellijSession res2"
    using a by simp
qed

lemma user_create_result:
  "fst (create (sample_host sample_os Valid) empty_world user_data None)
     = Inr \<lparr>r_terminalId = ''term-1'', r_cwd = ''/root'', r_zellijSession = ''agor-0199aaaa'',
            zellijReused = False, worktreeName = None\<rparr>"
  by (simp add: eval_defs user_data_def)

lemma other_create_result:
  "fst (create (sample_host sample_os Valid) empty_world other_data (Some ''0199aaaa-bbbb''))
     = Inr \<lparr>r_terminalId = ''term-1'', r_cwd = ''/srv'', r_zellijSession = ''agor-0199aaaa'',
            zellijReused = False, worktreeName = None\<rparr>"
  by (simp add: eval_defs other_data_def)

theorem session_name_from_user_id_witness:
  "fst (create (sample_host sample_os Valid) empty_world user_data None)
     = Inr \<lparr>r_terminalId = ''term-1'', r_cwd = ''/root'', r_zellijSession = ''agor-0199aaaa'',
            zellijReused = False, worktreeName = None\<rparr>
   \<and> fst (create (sample_host sample_os Valid) empty_world other_data (Some ''0199aaaa-bbbb''))
     = Inr \<lparr>r_terminalId = ''term-1'', r_cwd = ''/srv'', r_zellijSession = ''agor-0199aaaa'',
            zellijReused = False, worktreeName = None\<rparr>
   \<and> resolvedUserId user_data None = resolvedUserId other_data (Some ''0199aaaa-bbbb'')
   \<and> ''agor-0199aaaa'' = ''agor-'' @ userSessionSuffix (sample_host sample_os Valid)
                                        (resolvedUserId user_data None)"
proof -
  let ?h = "sample_host sample_os Valid"
  let ?X1 = "create ?h empty_world user_data None"
  let ?X2 = "create ?h empty_world other_data (Some ''0199aaaa-bbbb'')"
  let ?R1 = "\<lparr>r_terminalId = ''term-1'', r_cwd = ''/root'', r_zellijSession = ''agor-0199aaaa'',
            zellijReused = False, worktreeName = None\<rparr>"
  let ?R2 = "\<lparr>r_terminalId = ''term-1'', r_cwd = ''/srv'', r_zellijSession = ''agor-0199aaaa'',
            zellijReused = False, worktreeName = None\<rparr>"
  have e1: "?X1 = (Inr ?R1, snd ?X1)"
    using user_create_result by (simp add: prod_eq_iff)
  have e2: "?X2 = (Inr ?R2, snd ?X2)"
    using other_create_result by (simp add: prod_eq_iff)
  have same: "resolvedUserId user_data None = resolvedUserId other_data (Some ''0199aaaa-bbbb'')"
    by (simp add: resolvedUserId_def user_data_def other_data_def no_data_def)
  from session_name_from_user_id [of ?h empty_world user_data None ?R1 "snd ?X1"] e1
  have "r_zellijSession ?R1 = ''agor-'' @ userSessionSuffix ?h (resolvedUserId user_data None)"
    by blast
  then have "''agor-0199aaaa'' = ''agor-'' @ userSessionSuffix ?h (resolvedUserId user_data None)"
    by simp
  with user_create_result other_create_result same show ?thesis by blast
qed

text \<open>
  C8, as the claim states it, fails: two calls with the same authenticated user (none)
  on the same host resolve the same Unix user (none), yet the one without a \<open>userId\<close>
  gets session \<open>agor-shared\<close> and the one with a \<open>userId\<close> gets the session of that id.
\<close>

theorem session_name_identity_counterexample:
  "finalUnixUser (sample_host sample_os Valid) None = Inr None
   \<and> fst (create (sample_host sample_os Valid) empty_world no_data None)
     = Inr \<lparr>r_terminalId = ''term-1'', r_cwd = ''/root'', r_zellijSession = ''agor-shared'',
            zellijReused = False, worktreeName = None\<rparr>
   \<and> fst (create (sample_host sample_os Valid) empty_world user_data None)
     = Inr \<lparr>r_terminalId = ''term-1'', r_cwd = ''/root'', r_zellijSession = ''agor-0199aaaa'',
            zellijReused = False, worktreeName = None\<rparr>
   \<and> ''agor-shared'' \<noteq> ''agor-0199aaaa''"
proof -
  have "finalUnixUser (sample_host sample_os Valid) None = Inr None"
    by (simp add: finalUnixUser_def sample_host_def)
  with sample_create_result user_create_result show ?thesis by simp
qed

text \<open>
  C7. Let \<open>mode\<close> be the configured \<open>unix_user_mode\<close> (\<open>simple\<close> when none is configured)
  and \<open>mapped\<close> the Unix user name of the authenticated user (none when there is no
  authenticated user, the lookup fails, or the user has no name). When
  \<open>resolveUnixUserForImpersonation\<close> for that mode, that name and the configured executor
  user returns \<open>u\<close> and \<open>validateResolvedUnixUser\<close> for that mode and \<open>u\<close> throws
  \<open>UnixUserNotFoundError\<close> with message \<open>m\<close>, \<open>create\<close> fails with \<open>m\<close> followed by the advice
  to create the Unix user, and the state is unchanged: nothing is added to the trace (no
  cache query, no file, no PTY spawned) and the table of sessions is the same. The same
  holds, with the error passed on as it is, when the resolution throws, when the
  validation throws another error, and when the configuration cannot be loaded.
\<close>

theorem create_identity_failure_atomic:
  "(loadConfig h = Inr cfg
      \<and> mode = (case unix_user_mode cfg of None \<Rightarrow> ''simple'' | Some cm \<Rightarrow> cm)
      \<and> mapped = (case a of
                    None \<Rightarrow> None
                  | Some aid \<Rightarrow>
                      if aid = [] then None
                      else (case users_findById h aid of
                              Inl x \<Rightarrow> None
                            | Inr None \<Rightarrow> None
                            | Inr (Some usr) \<Rightarrow>
                                (case unix_username usr of
                                   None \<Rightarrow> None
                                 | Some n \<Rightarrow> if n = [] then None else Some n)))
      \<and> resolveUnixUserForImpersonation h mode mapped (executor_unix_user cfg) = Inr u
      \<and> validateResolvedUnixUser h mode u = UnixUserNotFound m
    \<longrightarrow> create h w d a
          = (Inl (Error (m @ ''. Ensure the Unix user is created before attempting terminal access.'')),
             w))
   \<and> (loadConfig h = Inr cfg
      \<and> mode = (case unix_user_mode cfg of None \<Rightarrow> ''simple'' | Some cm \<Rightarrow> cm)
      \<and> mapped = (case a of
                    None \<Rightarrow> None
                  | Some aid \<Rightarrow>
                      if aid = [] then None
                      else (case users_findById h aid of
                              Inl x \<Rightarrow> None
                            | Inr None \<Rightarrow> None
                            | Inr (Some usr) \<Rightarrow>
                                (case unix_username usr of
                                   None \<Rightarrow> None
                                 | Some n \<Rightarrow> if n = [] then None else Some n)))
      \<and> (resolveUnixUserForImpersonation h mode mapped (executor_unix_user cfg) = Inl e
           \<or> (resolveUnixUserForImpersonation h mode mapped (executor_unix_user cfg) = Inr u
               \<and> validateResolvedUnixUser h mode u = OtherFailure e))
    \<longrightarrow> create h w d a = (Inl e, w))
   \<and> (loadConfig h = Inl e \<longrightarrow> create h w d a = (Inl e, w))"
proof -
  have imp: "impersonatedUser h a = (case a of
                    None \<Rightarrow> None
                  | Some aid \<Rightarrow>
                      if aid = [] then None
                      else (case users_findById h aid of
                              Inl x \<Rightarrow> None
                            | Inr None \<Rightarrow> None
                            | Inr (Some usr) \<Rightarrow>
                                (case unix_username usr of
                                   None \<Rightarrow> None
                                 | Some n \<Rightarrow> if n = [] then None else Some n)))"
    by (auto simp: impersonatedUser_def truthy_def split: option.splits sum.splits)
  show ?thesis
    by (auto simp: create_def finalUnixUser_def unixUserMode_def Let_def imp)
qed

theorem create_identity_failure_atomic_witness:
  "create (mode_host (Some ''strict'')) (sample_world [(''t1'', sample_session ''t1'' 1 None)])
      no_data (Some ''u1'')
     = (Inl (Error ''Strict mode requires a Unix user and none is mapped. Ensure the Unix user is created before attempting terminal access.''),
        sample_world [(''t1'', sample_session ''t1'' 1 None)])
   \<and> fst (create (mode_host None) (sample_world [(''t1'', sample_session ''t1'' 1 None)])
           no_data (Some ''u1''))
     = Inr \<lparr>r_terminalId = ''term-1'', r_cwd = ''/root'', r_zellijSession = ''agor-u1'',
            zellijReused = False, worktreeName = None\<rparr>"
proof -
  have "create (mode_host (Some ''strict'')) (sample_world [(''t1'', sample_session ''t1'' 1 None)])
      no_data (Some ''u1'')
     = (Inl (Error (''Strict mode requires a Unix user and none is mapped''
                     @ ''. Ensure the Unix user is created before attempting terminal access.'')),
        sample_world [(''t1'', sample_session ''t1'' 1 None)])"
    using create_identity_failure_atomic
      [of "mode_host (Some ''strict'')" "\<lparr>unix_user_mode = Some ''strict'', executor_unix_user = None\<rparr>"
        "''strict''" None "Some ''u1''" None
        "''Strict mode requires a Unix user and none is mapped''"
        "sample_world [(''t1'', sample_session ''t1'' 1 None)]" no_data]
    by (simp add: mode_host_def sample_host_def sample_resolve_def sample_validate_def truthy_def)
  moreover have "fst (create (mode_host None) (sample_world [(''t1'', sample_session ''t1'' 1 None)])
           no_data (Some ''u1''))
     = Inr \<lparr>r_terminalId = ''term-1'', r_cwd = ''/root'', r_zellijSession = ''agor-u1'',
            zellijReused = False, worktreeName = None\<rparr>"
    by (simp add: eval_defs mode_host_def sample_resolve_def sample_validate_def
        sample_world_def sample_session_def)
  ultimately show ?thesis by simp
qed

end
